theory Spec2Isabelle
  imports Complex_Main
begin

section \<open>JavaScript numbers\<close>

text \<open>
  Every number of \<^verbatim>\<open>App.tsx\<close> is a JavaScript number. The model keeps the three
  special values of IEEE-754, with their arithmetic and comparison rules, and takes
  the finite values as real numbers: rounding, overflow of a finite result and the
  sign of zero are left out. \<open>a > b\<close> of the source is \<open>a > b\<close> here; a
  comparison with \<open>NaN\<close> on either side is false.
\<close>

datatype jsnum = Fin real | PInf | NInf | NaN

instantiation jsnum :: "{plus,minus,uminus,times,ord}"
begin

fun plus_jsnum :: "jsnum \<Rightarrow> jsnum \<Rightarrow> jsnum" where
  "plus_jsnum NaN b = NaN"
| "plus_jsnum a NaN = NaN"
| "plus_jsnum PInf NInf = NaN"
| "plus_jsnum NInf PInf = NaN"
| "plus_jsnum PInf b = PInf"
| "plus_jsnum a PInf = PInf"
| "plus_jsnum NInf b = NInf"
| "plus_jsnum a NInf = NInf"
| "plus_jsnum (Fin a) (Fin b) = Fin (a + b)"

fun uminus_jsnum :: "jsnum \<Rightarrow> jsnum" where
  "uminus_jsnum (Fin a) = Fin (- a)"
| "uminus_jsnum PInf = NInf"
| "uminus_jsnum NInf = PInf"
| "uminus_jsnum NaN = NaN"

definition minus_jsnum :: "jsnum \<Rightarrow> jsnum \<Rightarrow> jsnum" where
  "minus_jsnum a b = a + (- b)"

fun times_jsnum :: "jsnum \<Rightarrow> jsnum \<Rightarrow> jsnum" where
  "times_jsnum NaN b = NaN"
| "times_jsnum a NaN = NaN"
| "times_jsnum (Fin a) (Fin b) = Fin (a * b)"
| "times_jsnum (Fin a) PInf = (if a = 0 then NaN else if 0 < a then PInf else NInf)"
| "times_jsnum (Fin a) NInf = (if a = 0 then NaN else if 0 < a then NInf else PInf)"
| "times_jsnum PInf (Fin b) = (if b = 0 then NaN else if 0 < b then PInf else NInf)"
| "times_jsnum NInf (Fin b) = (if b = 0 then NaN else if 0 < b then NInf else PInf)"
| "times_jsnum PInf PInf = PInf"
| "times_jsnum PInf NInf = NInf"
| "times_jsnum NInf PInf = NInf"
| "times_jsnum NInf NInf = PInf"

fun less_jsnum :: "jsnum \<Rightarrow> jsnum \<Rightarrow> bool" where
  "less_jsnum NaN b = False"
| "less_jsnum a NaN = False"
| "less_jsnum (Fin a) (Fin b) = (a < b)"
| "less_jsnum (Fin a) PInf = True"
| "less_jsnum NInf (Fin b) = True"
| "less_jsnum NInf PInf = True"
| "less_jsnum PInf b = False"
| "less_jsnum a NInf = False"

fun less_eq_jsnum :: "jsnum \<Rightarrow> jsnum \<Rightarrow> bool" where
  "less_eq_jsnum NaN b = False"
| "less_eq_jsnum a NaN = False"
| "less_eq_jsnum (Fin a) (Fin b) = (a \<le> b)"
| "less_eq_jsnum NInf b = True"
| "less_eq_jsnum a PInf = True"
| "less_eq_jsnum PInf b = False"
| "less_eq_jsnum a NInf = False"

instance ..

end

section \<open>Vectors, quaternions and the face table\<close>

text \<open>
  \<open>THREE.Vector3(x, y, z)\<close> and \<open>THREE.Quaternion(x, y, z, w)\<close>, with the
  constructors' argument order. \<open>applyQuaternion\<close> and \<open>dot\<close> are the methods of
  three.js's \<open>Vector3\<close> that \<open>getDiceValue\<close> calls, transcribed with the library's
  local names and its order of operations.
\<close>

datatype vec3 = Vector3 jsnum jsnum jsnum

datatype quat = Quaternion jsnum jsnum jsnum jsnum

fun applyQuaternion :: "vec3 \<Rightarrow> quat \<Rightarrow> vec3" where
  "applyQuaternion (Vector3 vx vy vz) (Quaternion qx qy qz qw) =
     (let tx = Fin 2 * (qy * vz - qz * vy);
          ty = Fin 2 * (qz * vx - qx * vz);
          tz = Fin 2 * (qx * vy - qy * vx)
      in Vector3 (vx + qw * tx + qy * tz - qz * ty)
                 (vy + qw * ty + qz * tx - qx * tz)
                 (vz + qw * tz + qx * ty - qy * tx))"

fun dot :: "vec3 \<Rightarrow> vec3 \<Rightarrow> jsnum" where
  "dot (Vector3 ax ay az) (Vector3 bx by bz) = ax * bx + ay * by + az * bz"

definition UP :: vec3 where
  "UP = Vector3 (Fin 0) (Fin 1) (Fin 0)"

text \<open>One entry of \<open>faceMap\<close>: \<open>{ dir, value }\<close> (the field \<open>value\<close> is \<open>val\<close> here).\<close>

record face =
  dir :: vec3
  val :: int

definition faceMap :: "face list" where
  "faceMap =
     [\<lparr>dir = Vector3 (Fin 0) (Fin 1) (Fin 0), val = 1\<rparr>,
      \<lparr>dir = Vector3 (Fin 0) (Fin (- 1)) (Fin 0), val = 6\<rparr>,
      \<lparr>dir = Vector3 (Fin 1) (Fin 0) (Fin 0), val = 4\<rparr>,
      \<lparr>dir = Vector3 (Fin (- 1)) (Fin 0) (Fin 0), val = 3\<rparr>,
      \<lparr>dir = Vector3 (Fin 0) (Fin 0) (Fin 1), val = 5\<rparr>,
      \<lparr>dir = Vector3 (Fin 0) (Fin 0) (Fin (- 1)), val = 2\<rparr>]"

section \<open>getDiceValue\<close>

text \<open>
  The \<open>for (const f of faceMap)\<close> loop, with its two mutable locals \<open>bestValue\<close>
  and \<open>bestScore\<close> as accumulators; \<open>getDiceValue\<close> starts it at \<open>1\<close> and
  \<open>-Infinity\<close>.
\<close>

definition score :: "quat \<Rightarrow> face \<Rightarrow> jsnum" where
  "score worldQuat f = dot (applyQuaternion (dir f) worldQuat) UP"

fun bestFace :: "quat \<Rightarrow> face list \<Rightarrow> int \<Rightarrow> jsnum \<Rightarrow> int" where
  "bestFace worldQuat [] bestValue bestScore = bestValue"
| "bestFace worldQuat (f # fs) bestValue bestScore =
     (if score worldQuat f > bestScore
      then bestFace worldQuat fs (val f) (score worldQuat f)
      else bestFace worldQuat fs bestValue bestScore)"

definition getDiceValue :: "quat \<Rightarrow> int" where
  "getDiceValue worldQuat = bestFace worldQuat faceMap 1 NInf"

text \<open>
  Vocabulary for the statements about \<open>getDiceValue\<close>: a number that is neither
  \<open>NaN\<close> nor infinite, a quaternion of four such numbers, the squared norm of a
  quaternion (three.js's \<open>Quaternion.lengthSq\<close>; \<open>App.tsx\<close> never calls it), and
  "entry \<open>i\<close> of the table has a dot product that no entry exceeds", with
  JavaScript's \<open>\<le>\<close>.
\<close>

fun is_fin :: "jsnum \<Rightarrow> bool" where
  "is_fin (Fin r) = True"
| "is_fin PInf = False"
| "is_fin NInf = False"
| "is_fin NaN = False"


fun lengthSq :: "quat \<Rightarrow> jsnum" where
  "lengthSq (Quaternion qx qy qz qw) = qx * qx + qy * qy + qz * qz + qw * qw"


text \<open>
  The rotation by the angle \<open>t\<close> about the X axis and about the Z axis, as
  \<open>Quaternion.setFromAxisAngle\<close> builds them; they name the canonical orientations.
\<close>

definition rotationX :: "real \<Rightarrow> quat" where
  "rotationX t = Quaternion (Fin (sin (t / 2))) (Fin 0) (Fin 0) (Fin (cos (t / 2)))"

definition rotationZ :: "real \<Rightarrow> quat" where
  "rotationZ t = Quaternion (Fin 0) (Fin 0) (Fin (sin (t / 2))) (Fin (cos (t / 2)))"

section \<open>The Dice component\<close>

text \<open>
  \<open>Math.hypot\<close> of three arguments, \<open>Math.cos\<close>, \<open>Math.sin\<close> and \<open>x / 2\<close>,
  with their results on the special values.
\<close>

fun is_inf :: "jsnum \<Rightarrow> bool" where
  "is_inf PInf = True"
| "is_inf NInf = True"
| "is_inf (Fin r) = False"
| "is_inf NaN = False"

fun Math_hypot :: "jsnum \<Rightarrow> jsnum \<Rightarrow> jsnum \<Rightarrow> jsnum" where
  "Math_hypot a b c =
     (if is_inf a \<or> is_inf b \<or> is_inf c then PInf
      else case (a, b, c) of
        (Fin x, Fin y, Fin z) \<Rightarrow> Fin (sqrt (x * x + y * y + z * z))
      | _ \<Rightarrow> NaN)"

fun Math_cos :: "jsnum \<Rightarrow> jsnum" where
  "Math_cos (Fin r) = Fin (cos r)"
| "Math_cos PInf = NaN"
| "Math_cos NInf = NaN"
| "Math_cos NaN = NaN"

fun Math_sin :: "jsnum \<Rightarrow> jsnum" where
  "Math_sin (Fin r) = Fin (sin r)"
| "Math_sin PInf = NaN"
| "Math_sin NInf = NaN"
| "Math_sin NaN = NaN"

fun half :: "jsnum \<Rightarrow> jsnum" where
  "half (Fin r) = Fin (r / 2)"
| "half PInf = PInf"
| "half NInf = NInf"
| "half NaN = NaN"

text \<open>
  \<open>THREE.Euler(x, y, z)\<close> with the default order \<open>XYZ\<close>, and
  \<open>Quaternion.setFromEuler\<close> for that order, transcribed from three.js.
\<close>

datatype euler = Euler jsnum jsnum jsnum

fun setFromEuler :: "euler \<Rightarrow> quat" where
  "setFromEuler (Euler x y z) =
     (let c1 = Math_cos (half x); c2 = Math_cos (half y); c3 = Math_cos (half z);
          s1 = Math_sin (half x); s2 = Math_sin (half y); s3 = Math_sin (half z)
      in Quaternion (s1 * c2 * c3 + c1 * s2 * s3)
                    (c1 * s2 * c3 - s1 * c2 * s3)
                    (c1 * c2 * s3 + s1 * s2 * c3)
                    (c1 * c2 * c3 - s1 * s2 * s3))"

text \<open>
  The rigid body behind \<open>rb.current\<close> belongs to the physics engine. What the
  component reads from it in one frame is a record of the three getters' results;
  what it does to it is the list of the calls it makes, in order, each with its
  arguments (the \<open>bool\<close> is the \<open>wakeUp\<close> argument \<open>true\<close>). A null
  \<open>rb.current\<close> is \<open>None\<close>. The handle comes from \<open>RigidBody\<close>, whose bodies have
  \<open>wakeUp\<close>, so \<open>body.wakeUp?.()\<close> always makes the call.
\<close>

record rigid_body =
  linvel :: vec3
  angvel :: vec3
  rotation :: quat

datatype body_call =
    SetTranslation vec3 bool
  | SetLinvel vec3 bool
  | SetAngvel vec3 bool
  | SetRotation quat bool
  | WakeUp
  | ApplyImpulse vec3 bool
  | ApplyTorqueImpulse vec3 bool

text \<open>
  The nine results of \<open>Math.random()\<close> in one call of \<open>roll\<close>, in the order of
  the calls: three for the Euler angles, then \<open>ix\<close>, \<open>iz\<close>, \<open>iy\<close>, then
  \<open>tx\<close>, \<open>ty\<close>, \<open>tz\<close>. Each is a finite number in \<open>[0, 1)\<close>.
\<close>

record draws =
  rand_ex :: real
  rand_ey :: real
  rand_ez :: real
  rand_ix :: real
  rand_iz :: real
  rand_iy :: real
  rand_tx :: real
  rand_ty :: real
  rand_tz :: real


text \<open>
  One \<open>Dice\<close> component: its prop \<open>spawn\<close>, its state \<open>rolling\<close> and the scratch
  quaternion \<open>rand.q\<close>. A state setter takes effect before the next callback of the
  component runs.
\<close>

record dice =
  spawn :: vec3
  rolling :: bool
  rand_q :: quat

definition impulseStrength :: jsnum where
  "impulseStrength = Fin 3.5"

definition upBoost :: jsnum where
  "upBoost = Fin 2.0"

definition torqueStrength :: jsnum where
  "torqueStrength = Fin 10.0"

definition Math_PI :: jsnum where
  "Math_PI = Fin pi"

text \<open>\<open>roll\<close> returns the component's new state and the calls made on the body.\<close>

definition roll :: "rigid_body option \<Rightarrow> draws \<Rightarrow> dice \<Rightarrow> dice \<times> body_call list" where
  "roll body r d =
     (case body of
        None \<Rightarrow> (d, [])
      | Some b \<Rightarrow>
          (let q = setFromEuler
                     (Euler (Fin (rand_ex r) * Math_PI * Fin 2)
                            (Fin (rand_ey r) * Math_PI * Fin 2)
                            (Fin (rand_ez r) * Math_PI * Fin 2));
               ix = (Fin (rand_ix r) - Fin 0.5) * impulseStrength;
               iz = (Fin (rand_iz r) - Fin 0.5) * impulseStrength;
               iy = upBoost + Fin (rand_iy r) * Fin 1.0;
               tx = (Fin (rand_tx r) - Fin 0.5) * torqueStrength;
               ty = (Fin (rand_ty r) - Fin 0.5) * torqueStrength;
               tz = (Fin (rand_tz r) - Fin 0.5) * torqueStrength
           in (d\<lparr>rolling := True, rand_q := q\<rparr>,
               [SetTranslation (spawn d) True,
                SetLinvel (Vector3 (Fin 0) (Fin 0) (Fin 0)) True,
                SetAngvel (Vector3 (Fin 0) (Fin 0) (Fin 0)) True,
                SetRotation q True,
                WakeUp,
                ApplyImpulse (Vector3 ix iy iz) True,
                ApplyTorqueImpulse (Vector3 tx ty tz) True])))"

text \<open>
  The \<open>useFrame\<close> callback of one frame: the component's new state, and the value
  passed to \<open>onSettled\<close> when it is called.
\<close>

fun speed_of :: "vec3 \<Rightarrow> jsnum" where
  "speed_of (Vector3 x y z) = Math_hypot x y z"



section \<open>The App component\<close>

text \<open>
  The React state of \<open>App\<close> that the handlers write: \<open>pendingValues\<close>
  (\<open>null\<close> is \<open>None\<close>), \<open>finalValues\<close>, \<open>modalOpen\<close> and \<open>modalContent\<close>
  (initially \<open>null\<close>, \<open>""\<close> after \<open>rollAll\<close>, or the congratulation panel
  showing the values). The state \<open>values\<close> is never written and is left out.
\<close>

definition N :: nat where
  "N = 3"

definition spawns :: "vec3 list" where
  "spawns =
     [Vector3 (Fin (- 1.2)) (Fin 10) (Fin 0),
      Vector3 (Fin 0.0) (Fin 10) (Fin 0),
      Vector3 (Fin 1.2) (Fin 10) (Fin 0)]"

datatype modal = NullContent | EmptyText | Congratulations "int list"

record app =
  pendingValues :: "int option list"
  finalValues :: "int list option"
  modalOpen :: bool
  modalContent :: modal

text \<open>
  \<open>xs.every((x) => x != null)\<close>, and whether the call of \<open>onSettled\<close> for die
  \<open>i\<close> with \<open>v\<close> takes the branch of \<open>setFinalValues\<close>: the test on
  \<open>next = [...prev]; next[i] = v\<close>. The handler of die \<open>i\<close> exists for the
  indices of \<open>spawns\<close> only, and \<open>pendingValues\<close> always has \<open>N\<close> entries, so
  the assignment is in range.
\<close>

definition every_non_null :: "int option list \<Rightarrow> bool" where
  "every_non_null xs = list_all (\<lambda>x. x \<noteq> None) xs"

definition completes :: "nat \<Rightarrow> int \<Rightarrow> app \<Rightarrow> bool" where
  "completes i v a = every_non_null ((pendingValues a)[i := Some v])"

text \<open>
  The \<open>onSettled\<close> prop of die \<open>i\<close>: the updater given to \<open>setPendingValues\<close>,
  applied to the current state, with the setters it calls.
\<close>

definition onSettled :: "nat \<Rightarrow> int \<Rightarrow> app \<Rightarrow> app" where
  "onSettled i v a =
     (let next = (pendingValues a)[i := Some v]
      in if every_non_null next
         then (let vals = map the next;
                   sum = foldl (\<lambda>a b. a + b) 0 vals
               in if sum = 3
                  then a\<lparr>pendingValues := next, finalValues := Some vals,
                         modalContent := Congratulations vals, modalOpen := True\<rparr>
                  else a\<lparr>pendingValues := next, finalValues := Some vals\<rparr>)
         else a\<lparr>pendingValues := next\<rparr>)"

text \<open>A sequence of \<open>onSettled\<close> calls, each with its die index and value.\<close>

fun recordResults :: "(nat \<times> int) list \<Rightarrow> app \<Rightarrow> app" where
  "recordResults [] a = a"
| "recordResults ((i, v) # evs) a = recordResults evs (onSettled i v a)"

text \<open>
  The scene: the state of \<open>App\<close> and of its \<open>Dice\<close> children, in the order of
  \<open>spawns\<close>. The engine's side is an input of each step: whether
  \<open>diceRefs.current[i]\<close> holds a handle, the body behind \<open>rb.current\<close> of die
  \<open>i\<close>, and the random draws of its \<open>roll\<close>.
\<close>

record scene =
  appState :: app
  diceList :: "dice list"

definition initialScene :: scene where
  "initialScene =
     \<lparr>appState = \<lparr>pendingValues = replicate N None, finalValues = None,
                   modalOpen = False, modalContent = NullContent\<rparr>,
      diceList = map (\<lambda>sp. \<lparr>spawn = sp, rolling = False,
                              rand_q = Quaternion (Fin 0) (Fin 0) (Fin 0) (Fin 1)\<rparr>) spawns\<rparr>"

text \<open>\<open>diceRefs.current.forEach((d) => d?.roll())\<close>, from die \<open>i\<close> on.\<close>

fun rollEach ::
  "nat \<Rightarrow> (nat \<Rightarrow> bool) \<Rightarrow> (nat \<Rightarrow> rigid_body option) \<Rightarrow> (nat \<Rightarrow> draws) \<Rightarrow> dice list
   \<Rightarrow> (dice \<times> body_call list) list" where
  "rollEach i handle body rnd [] = []"
| "rollEach i handle body rnd (d # ds) =
     (if handle i then roll (body i) (rnd i) d else (d, []))
     # rollEach (Suc i) handle body rnd ds"

definition rollAll ::
  "(nat \<Rightarrow> bool) \<Rightarrow> (nat \<Rightarrow> rigid_body option) \<Rightarrow> (nat \<Rightarrow> draws) \<Rightarrow> scene
   \<Rightarrow> scene \<times> body_call list list" where
  "rollAll handle body rnd s =
     (let a = (appState s)\<lparr>pendingValues := replicate N None, finalValues := None,
                            modalOpen := False, modalContent := EmptyText\<rparr>;
          rs = rollEach 0 handle body rnd (diceList s)
      in (\<lparr>appState = a, diceList = map fst rs\<rparr>, map snd rs))"





section \<open>Properties of getDiceValue\<close>

lemmas getDiceValue_unfold =
  getDiceValue_def faceMap_def score_def UP_def minus_jsnum_def Let_def

subsection \<open>The loop\<close>

lemma bestFace_range: "bestFace q fs bv bs \<in> insert bv (val ` set fs)"
  by (induction fs arbitrary: bv bs) auto

lemma bestFace_no_update:
  "\<forall>f\<in>set fs. \<not> score q f > bs \<Longrightarrow> bestFace q fs bv bs = bv"
  by (induction fs arbitrary: bv bs) auto






lemma is_fin_Fin: "is_fin x \<Longrightarrow> \<exists>r. x = Fin r"
  by (cases x) auto




subsection \<open>Finite quaternions have a maximum\<close>





lemma val_faceMap: "val ` set faceMap = {1, 2, 3, 4, 5, 6}"
  by (auto simp: faceMap_def)

lemma getDiceValue_in_table: "getDiceValue q \<in> val ` set faceMap"
  using bestFace_range [of q faceMap 1 NInf] by (auto simp: getDiceValue_def faceMap_def)

subsection \<open>The canonical orientations\<close>

lemma quarter_turn: "pi / 2 / 2 = pi / 4" "- pi / 2 / 2 = - (pi / 4)" "- (pi / 2) / 2 = - (pi / 4)"
  by simp_all

lemmas rotation_unfold = rotationX_def rotationZ_def quarter_turn sin_45 cos_45

text \<open>
  C1. In each canonical axis-aligned orientation, \<open>getDiceValue\<close> returns the value
  that \<open>faceMap\<close> gives the local direction placed at world-up: the identity leaves
  \<open>+Y\<close> up (1); the half turns about X and about Z put \<open>-Y\<close> up (6); the quarter
  turns about Z put \<open>+X\<close> (4) and \<open>-X\<close> (3) up; the quarter turns about X put
  \<open>+Z\<close> (5) and \<open>-Z\<close> (2) up. The second half of the statement checks that each
  orientation does place that direction at \<open>UP\<close>.
\<close>

theorem getDiceValue_canonical_orientations:
  "getDiceValue (Quaternion (Fin 0) (Fin 0) (Fin 0) (Fin 1)) = 1
   \<and> getDiceValue (rotationX pi) = 6
   \<and> getDiceValue (rotationZ pi) = 6
   \<and> getDiceValue (rotationZ (pi / 2)) = 4
   \<and> getDiceValue (rotationZ (- pi / 2)) = 3
   \<and> getDiceValue (rotationX (- pi / 2)) = 5
   \<and> getDiceValue (rotationX (pi / 2)) = 2
   \<and> applyQuaternion (dir (faceMap ! 0)) (Quaternion (Fin 0) (Fin 0) (Fin 0) (Fin 1)) = UP
   \<and> applyQuaternion (dir (faceMap ! 1)) (rotationX pi) = UP
   \<and> applyQuaternion (dir (faceMap ! 1)) (rotationZ pi) = UP
   \<and> applyQuaternion (dir (faceMap ! 2)) (rotationZ (pi / 2)) = UP
   \<and> applyQuaternion (dir (faceMap ! 3)) (rotationZ (- pi / 2)) = UP
   \<and> applyQuaternion (dir (faceMap ! 4)) (rotationX (- pi / 2)) = UP
   \<and> applyQuaternion (dir (faceMap ! 5)) (rotationX (pi / 2)) = UP
   \<and> map val faceMap = [1, 6, 4, 3, 5, 2]"
proof -
  have v: "getDiceValue (Quaternion (Fin 0) (Fin 0) (Fin 0) (Fin 1)) = 1"
    "getDiceValue (rotationX pi) = 6"
    "getDiceValue (rotationZ pi) = 6"
    "getDiceValue (rotationZ (pi / 2)) = 4"
    "getDiceValue (rotationZ (- pi / 2)) = 3"
    "getDiceValue (rotationX (- pi / 2)) = 5"
    "getDiceValue (rotationX (pi / 2)) = 2"
    by (simp_all add: getDiceValue_unfold rotation_unfold)
  have u: "applyQuaternion (dir (faceMap ! 0)) (Quaternion (Fin 0) (Fin 0) (Fin 0) (Fin 1)) = UP"
    "applyQuaternion (dir (faceMap ! 1)) (rotationX pi) = UP"
    "applyQuaternion (dir (faceMap ! 1)) (rotationZ pi) = UP"
    "applyQuaternion (dir (faceMap ! 2)) (rotationZ (pi / 2)) = UP"
    "applyQuaternion (dir (faceMap ! 3)) (rotationZ (- pi / 2)) = UP"
    "applyQuaternion (dir (faceMap ! 4)) (rotationX (- pi / 2)) = UP"
    "applyQuaternion (dir (faceMap ! 5)) (rotationX (pi / 2)) = UP"
    by (simp_all add: getDiceValue_unfold rotation_unfold)
  have m: "map val faceMap = [1, 6, 4, 3, 5, 2]"
    by (simp add: faceMap_def)
  from v u m show ?thesis by blast
qed

subsection \<open>Unit quaternions that place a face at world-up\<close>

lemma unit_row:
  fixes x y z w :: real
  assumes "x * x + y * y + z * z + w * w = 1"
  shows "(1 - 2 * (x * x + z * z))\<^sup>2 + (2 * (w * z) + 2 * (x * y))\<^sup>2
           + (2 * (y * z) - 2 * (w * x))\<^sup>2 = 1"
proof -
  have "(1 - 2 * (x * x + z * z))\<^sup>2 + (2 * (w * z) + 2 * (x * y))\<^sup>2
           + (2 * (y * z) - 2 * (w * x))\<^sup>2
        = 1 + 4 * (x * x + z * z) * (x * x + y * y + z * z + w * w - 1)"
    by (simp add: power2_eq_square algebra_simps)
  then show ?thesis using assms by simp
qed

lemma scores_finite:
  "map (score (Quaternion (Fin x) (Fin y) (Fin z) (Fin w))) faceMap =
     [Fin (1 - 2 * (x * x + z * z)), Fin (- (1 - 2 * (x * x + z * z))),
      Fin (2 * (w * z) + 2 * (x * y)), Fin (- (2 * (w * z) + 2 * (x * y))),
      Fin (2 * (y * z) - 2 * (w * x)), Fin (- (2 * (y * z) - 2 * (w * x)))]"
  by (simp add: getDiceValue_unfold algebra_simps)

lemma lengthSq_unit_finite:
  assumes "lengthSq q = Fin 1"
  obtains x y z w where "q = Quaternion (Fin x) (Fin y) (Fin z) (Fin w)"
    and "x * x + y * y + z * z + w * w = 1"
proof -
  obtain a b c d where q: "q = Quaternion a b c d" by (cases q)
  have "is_fin a \<and> is_fin b \<and> is_fin c \<and> is_fin d"
    using assms unfolding q by (cases a; cases b; cases c; cases d) simp_all
  then have "\<exists>x. a = Fin x" "\<exists>y. b = Fin y" "\<exists>z. c = Fin z" "\<exists>w. d = Fin w"
    using is_fin_Fin by blast+
  then obtain x y z w where "a = Fin x" "b = Fin y" "c = Fin z" "d = Fin w"
    by blast
  then show ?thesis using that assms q by simp
qed

lemma sum_squares_one:
  fixes a b c :: real
  shows "a\<^sup>2 + b\<^sup>2 + c\<^sup>2 = 1 \<Longrightarrow> a\<^sup>2 = 1 \<Longrightarrow> b = 0 \<and> c = 0"
    and "a\<^sup>2 + b\<^sup>2 + c\<^sup>2 = 1 \<Longrightarrow> b\<^sup>2 = 1 \<Longrightarrow> a = 0 \<and> c = 0"
    and "a\<^sup>2 + b\<^sup>2 + c\<^sup>2 = 1 \<Longrightarrow> c\<^sup>2 = 1 \<Longrightarrow> a = 0 \<and> b = 0"
  by (simp_all add: sum_power2_eq_zero_iff)

text \<open>
  The canonical orientations are instances of a general fact: whenever a unit
  quaternion rotates the direction of a table entry exactly onto \<open>UP\<close> (dot product
  1), the other five dot products are 0 or -1 and \<open>getDiceValue\<close> returns that
  entry's value.
\<close>

lemma getDiceValue_face_up:
  assumes unit: "lengthSq q = Fin 1" and i: "i < length faceMap"
    and up: "score q (faceMap ! i) = Fin 1"
  shows "getDiceValue q = val (faceMap ! i)"
proof -
  obtain x y z w where q: "q = Quaternion (Fin x) (Fin y) (Fin z) (Fin w)"
    and n: "x * x + y * y + z * z + w * w = 1"
    using unit by (rule lengthSq_unit_finite)
  define a where "a = 1 - 2 * (x * x + z * z)"
  define b where "b = 2 * (w * z) + 2 * (x * y)"
  define c where "c = 2 * (y * z) - 2 * (w * x)"
  have row: "a\<^sup>2 + b\<^sup>2 + c\<^sup>2 = 1"
    unfolding a_def b_def c_def using n by (rule unit_row)
  have sc: "map (score q) faceMap = [Fin a, Fin (- a), Fin b, Fin (- b), Fin c, Fin (- c)]"
    unfolding q a_def b_def c_def by (rule scores_finite)
  have s: "score q \<lparr>dir = Vector3 (Fin 0) (Fin 1) (Fin 0), val = 1\<rparr> = Fin a"
    "score q \<lparr>dir = Vector3 (Fin 0) (Fin (- 1)) (Fin 0), val = 6\<rparr> = Fin (- a)"
    "score q \<lparr>dir = Vector3 (Fin 1) (Fin 0) (Fin 0), val = 4\<rparr> = Fin b"
    "score q \<lparr>dir = Vector3 (Fin (- 1)) (Fin 0) (Fin 0), val = 3\<rparr> = Fin (- b)"
    "score q \<lparr>dir = Vector3 (Fin 0) (Fin 0) (Fin 1), val = 5\<rparr> = Fin c"
    "score q \<lparr>dir = Vector3 (Fin 0) (Fin 0) (Fin (- 1)), val = 2\<rparr> = Fin (- c)"
    using sc by (simp_all add: faceMap_def)
  have "i = 0 \<or> i = 1 \<or> i = 2 \<or> i = 3 \<or> i = 4 \<or> i = 5"
    using i by (auto simp: faceMap_def)
  then consider
      (py) "i = 0" "a = 1" | (ny) "i = 1" "a = - 1"
    | (px) "i = 2" "b = 1" | (nx) "i = 3" "b = - 1"
    | (pz) "i = 4" "c = 1" | (nz) "i = 5" "c = - 1"
    using up s by (auto simp: faceMap_def)
  then show ?thesis
  proof cases
    case py
    have "a\<^sup>2 = 1" using py(2) by simp
    then have "b = 0" "c = 0" using row by (simp_all add: sum_squares_one)
    then show ?thesis using py by (simp add: getDiceValue_def faceMap_def s)
  next
    case ny
    have "a\<^sup>2 = 1" using ny(2) by simp
    then have "b = 0" "c = 0" using row by (simp_all add: sum_squares_one)
    then show ?thesis using ny by (simp add: getDiceValue_def faceMap_def s)
  next
    case px
    have "b\<^sup>2 = 1" using px(2) by simp
    then have "a = 0" "c = 0" using row by (simp_all add: sum_squares_one)
    then show ?thesis using px by (simp add: getDiceValue_def faceMap_def s)
  next
    case nx
    have "b\<^sup>2 = 1" using nx(2) by simp
    then have "a = 0" "c = 0" using row by (simp_all add: sum_squares_one)
    then show ?thesis using nx by (simp add: getDiceValue_def faceMap_def s)
  next
    case pz
    have "c\<^sup>2 = 1" using pz(2) by simp
    then have "a = 0" "b = 0" using row by (simp_all add: sum_squares_one)
    then show ?thesis using pz by (simp add: getDiceValue_def faceMap_def s)
  next
    case nz
    have "c\<^sup>2 = 1" using nz(2) by simp
    then have "a = 0" "b = 0" using row by (simp_all add: sum_squares_one)
    then show ?thesis using nz by (simp add: getDiceValue_def faceMap_def s)
  qed
qed

subsection \<open>The maximum, and the first entry that reaches it\<close>



subsection \<open>Orientations that are not unit quaternions\<close>

text \<open>
  C3, as the spec states it, fails: the zero quaternion has norm 0, and
  \<open>getDiceValue\<close> returns the face value 1 for it.
\<close>

theorem getDiceValue_zero_quaternion_accepted:
  "lengthSq (Quaternion (Fin 0) (Fin 0) (Fin 0) (Fin 0)) = Fin 0
   \<and> getDiceValue (Quaternion (Fin 0) (Fin 0) (Fin 0) (Fin 0)) = 1"
  by (simp add: getDiceValue_unfold)

text \<open>
  C3, amended. \<open>getDiceValue\<close> has no check of the norm: for an orientation whose
  squared norm is not 1 it returns, like for any other, a value of the face table.
\<close>

theorem getDiceValue_non_unit_returns_face:
  "lengthSq q \<noteq> Fin 1 \<Longrightarrow> getDiceValue q \<in> val ` set faceMap"
  by (rule getDiceValue_in_table)

theorem getDiceValue_non_unit_returns_face_witness:
  "lengthSq (Quaternion (Fin 0) (Fin 0) (Fin 2) (Fin 0)) = Fin 4
   \<and> getDiceValue (Quaternion (Fin 0) (Fin 0) (Fin 2) (Fin 0)) \<in> val ` set faceMap
   \<and> getDiceValue (Quaternion (Fin 0) (Fin 0) (Fin 2) (Fin 0)) = 6"
proof -
  let ?q = "Quaternion (Fin 0) (Fin 0) (Fin 2) (Fin 0)"
  have n: "lengthSq ?q = Fin 4" by simp
  then have "lengthSq ?q \<noteq> Fin 1" by simp
  then have "getDiceValue ?q \<in> val ` set faceMap"
    by (rule getDiceValue_non_unit_returns_face)
  moreover have "getDiceValue ?q = 6" by (simp add: getDiceValue_unfold)
  ultimately show ?thesis using n by blast
qed

subsection \<open>Totality and range\<close>

text \<open>
  C10. \<open>getDiceValue\<close> is a total function, and for every quaternion, whatever its
  components (finite, infinite or \<open>NaN\<close>), its result is a value of the face table,
  an integer from 1 to 6; when no dot product exceeds \<open>-Infinity\<close> (as when every
  one is \<open>NaN\<close>) it is the initial \<open>bestValue\<close>, 1.
\<close>

theorem getDiceValue_total_range:
  "getDiceValue q \<in> val ` set faceMap \<and> 1 \<le> getDiceValue q \<and> getDiceValue q \<le> 6
   \<and> ((\<forall>f\<in>set faceMap. \<not> score q f > NInf) \<longrightarrow> getDiceValue q = 1)"
proof -
  have "getDiceValue q \<in> {1, 2, 3, 4, 5, 6}"
    using getDiceValue_in_table val_faceMap by simp
  then have "1 \<le> getDiceValue q \<and> getDiceValue q \<le> 6" by auto
  moreover have "(\<forall>f\<in>set faceMap. \<not> score q f > NInf) \<longrightarrow> getDiceValue q = 1"
    by (simp add: getDiceValue_def bestFace_no_update)
  ultimately show ?thesis using getDiceValue_in_table by blast
qed

text \<open>
  Witness: with a \<open>NaN\<close> component every dot product is \<open>NaN\<close>, none exceeds
  \<open>-Infinity\<close>, and the result is 1.
\<close>

theorem getDiceValue_total_range_witness:
  "map (score (Quaternion NaN (Fin 0) (Fin 0) (Fin 1))) faceMap = [NaN, NaN, NaN, NaN, NaN, NaN]
   \<and> getDiceValue (Quaternion NaN (Fin 0) (Fin 0) (Fin 1)) = 1"
proof -
  let ?q = "Quaternion NaN (Fin 0) (Fin 0) (Fin 1)"
  have s: "map (score ?q) faceMap = [NaN, NaN, NaN, NaN, NaN, NaN]"
    by (simp add: getDiceValue_unfold)
  have h: "\<forall>f\<in>set faceMap. \<not> score ?q f > NInf"
    by (simp add: getDiceValue_unfold)
  from getDiceValue_total_range [of ?q] h have "getDiceValue ?q = 1" by blast
  with s show ?thesis by blast
qed

section \<open>Properties of the Dice component\<close>

subsection \<open>The settle test\<close>

lemma speed_of_finite:
  "speed_of (Vector3 (Fin x) (Fin y) (Fin z)) = Fin (sqrt (x * x + y * y + z * z))"
  by simp



subsection \<open>At most one settle per roll\<close>









subsection \<open>The throw\<close>






section \<open>Properties of the App component\<close>

subsection \<open>Recording results\<close>

lemma onSettled_pending: "pendingValues (onSettled i v a) = (pendingValues a)[i := Some v]"
  by (simp add: onSettled_def Let_def)

lemma onSettled_final:
  "finalValues (onSettled i v a) =
     (if completes i v a then Some (map the ((pendingValues a)[i := Some v])) else finalValues a)"
  by (simp add: onSettled_def completes_def Let_def)

lemma foldl_plus_sum_list: "foldl (\<lambda>a b. a + b) s xs = s + sum_list (xs :: int list)"
  by (induction xs arbitrary: s) simp_all

lemma onSettled_modalOpen:
  "modalOpen (onSettled i v a) =
     (if completes i v a \<and> sum_list (map the ((pendingValues a)[i := Some v])) = 3 then True
      else modalOpen a)"
  by (simp add: onSettled_def completes_def Let_def foldl_plus_sum_list)

lemma every_non_null_update:
  "every_non_null xs \<Longrightarrow> every_non_null (xs[i := Some v])"
  unfolding every_non_null_def list_all_iff by (auto dest!: set_update_subset_insert [THEN subsetD])

lemma every_non_null_recordResults:
  "every_non_null (pendingValues a) \<Longrightarrow> every_non_null (pendingValues (recordResults evs a))"
  by (induction evs arbitrary: a) (auto simp: onSettled_pending every_non_null_update)

lemma recordResults_length:
  "length (pendingValues (recordResults evs a)) = length (pendingValues a)"
  by (induction evs arbitrary: a) (auto simp: onSettled_pending)

lemma recordResults_untouched:
  "k \<notin> fst ` set evs \<Longrightarrow> pendingValues (recordResults evs a) ! k = pendingValues a ! k"
  by (induction evs arbitrary: a) (auto simp: onSettled_pending)

lemma recordResults_final_None:
  "finalValues a = None \<Longrightarrow> \<not> every_non_null (pendingValues (recordResults evs a))
   \<Longrightarrow> finalValues (recordResults evs a) = None"
proof (induction evs arbitrary: a)
  case Nil
  then show ?case by simp
next
  case (Cons ev evs)
  obtain i v where ev: "ev = (i, v)" by (cases ev)
  have "\<not> completes i v a"
  proof
    assume "completes i v a"
    then have "every_non_null (pendingValues (onSettled i v a))"
      by (simp add: completes_def onSettled_pending)
    then have "every_non_null (pendingValues (recordResults evs (onSettled i v a)))"
      by (rule every_non_null_recordResults)
    then show False using Cons.prems(2) ev by simp
  qed
  then have "finalValues (onSettled i v a) = None"
    using Cons.prems(1) by (simp add: onSettled_final)
  then show ?case using Cons.IH [of "onSettled i v a"] Cons.prems(2) ev by simp
qed

lemma every_non_null_nth: "every_non_null xs \<Longrightarrow> k < length xs \<Longrightarrow> xs ! k \<noteq> None"
  by (simp add: every_non_null_def list_all_length)

text \<open>
  C7. From the state a roll starts in (every pending entry null, no final values),
  a sequence of results that leaves some die out leaves \<open>finalValues\<close> null, whatever
  the order, the values and the repetitions. A call that does not make every entry
  non-null leaves \<open>finalValues\<close> as it was. The call that does sets \<open>finalValues\<close>
  to the values of the updated \<open>pendingValues\<close>, in die order, and evaluates the
  completion test: the modal opens when the sum is 3.
\<close>

theorem onSettled_completion:
  "(pendingValues a = replicate N None \<and> finalValues a = None
      \<and> (\<forall>ev\<in>set evs. fst ev < N) \<and> k < N \<and> k \<notin> fst ` set evs
      \<longrightarrow> finalValues (recordResults evs a) = None)
   \<and> (\<not> completes i v a \<longrightarrow>
        finalValues (onSettled i v a) = finalValues a \<and> modalOpen (onSettled i v a) = modalOpen a)
   \<and> (i < N \<and> length (pendingValues a) = N \<and> completes i v a \<longrightarrow>
        pendingValues (onSettled i v a) = (pendingValues a)[i := Some v]
        \<and> finalValues (onSettled i v a) = Some (map the (pendingValues (onSettled i v a)))
        \<and> map Some (map the (pendingValues (onSettled i v a))) = pendingValues (onSettled i v a)
        \<and> (modalOpen (onSettled i v a)
             \<longleftrightarrow> modalOpen a \<or> sum_list (map the (pendingValues (onSettled i v a))) = 3))"
proof (intro conjI impI)
  assume h: "pendingValues a = replicate N None \<and> finalValues a = None
      \<and> (\<forall>ev\<in>set evs. fst ev < N) \<and> k < N \<and> k \<notin> fst ` set evs"
  then have "pendingValues (recordResults evs a) ! k = None"
    by (simp add: recordResults_untouched)
  moreover have "k < length (pendingValues (recordResults evs a))"
    using h by (simp add: recordResults_length)
  ultimately have "\<not> every_non_null (pendingValues (recordResults evs a))"
    using every_non_null_nth by blast
  then show "finalValues (recordResults evs a) = None"
    using h by (simp add: recordResults_final_None)
next
  assume "\<not> completes i v a"
  then show "finalValues (onSettled i v a) = finalValues a"
    and "modalOpen (onSettled i v a) = modalOpen a"
    by (simp_all add: onSettled_final onSettled_modalOpen)
next
  assume h: "i < N \<and> length (pendingValues a) = N \<and> completes i v a"
  show p: "pendingValues (onSettled i v a) = (pendingValues a)[i := Some v]"
    by (rule onSettled_pending)
  show "finalValues (onSettled i v a) = Some (map the (pendingValues (onSettled i v a)))"
    using h by (simp add: onSettled_final onSettled_pending)
  have "every_non_null (pendingValues (onSettled i v a))"
    using h by (simp add: completes_def onSettled_pending)
  then have "\<forall>x\<in>set (pendingValues (onSettled i v a)). x \<noteq> None"
    by (simp add: every_non_null_def list_all_iff)
  then show "map Some (map the (pendingValues (onSettled i v a))) = pendingValues (onSettled i v a)"
    by (simp add: map_idI)
  show "modalOpen (onSettled i v a)
          \<longleftrightarrow> modalOpen a \<or> sum_list (map the (pendingValues (onSettled i v a))) = 3"
    using h by (auto simp: onSettled_modalOpen onSettled_pending)
qed

text \<open>
  Witness, for \<open>N = 3\<close>: after the results of dice 0 and 1 only, \<open>finalValues\<close> is
  null; the result of die 2 then completes the roll with \<open>[2, 5, 6]\<close>.
\<close>

theorem onSettled_completion_witness:
  "finalValues (recordResults [(0, 2), (1, 5)] (appState initialScene)) = None
   \<and> pendingValues (recordResults [(0, 2), (1, 5)] (appState initialScene)) = [Some 2, Some 5, None]
   \<and> completes 2 6 (recordResults [(0, 2), (1, 5)] (appState initialScene))
   \<and> finalValues (onSettled 2 6 (recordResults [(0, 2), (1, 5)] (appState initialScene)))
       = Some [2, 5, 6]
   \<and> \<not> modalOpen (onSettled 2 6 (recordResults [(0, 2), (1, 5)] (appState initialScene)))"
proof -
  let ?a = "appState initialScene"
  let ?b = "recordResults [(0, 2), (1, 5)] ?a"
  have p: "pendingValues ?b = [Some 2, Some 5, None]"
    by (simp add: initialScene_def N_def onSettled_pending numeral_3_eq_3)
  have c: "completes 2 6 ?b" unfolding completes_def every_non_null_def p by simp
  have m: "\<not> modalOpen ?b"
    by (simp add: initialScene_def N_def onSettled_modalOpen onSettled_pending completes_def
        every_non_null_def numeral_3_eq_3)
  have h1: "pendingValues ?a = replicate N None \<and> finalValues ?a = None
      \<and> (\<forall>ev\<in>set [(0, 2), (1, 5)]. fst ev < N) \<and> (2::nat) < N
      \<and> (2::nat) \<notin> fst ` set [(0::nat, 2::int), (1, 5)]"
    by (simp add: initialScene_def N_def)
  have f: "finalValues ?b = None"
    using onSettled_completion [of ?a "[(0, 2), (1, 5)]" 2] h1 by blast
  have h2: "(2::nat) < N \<and> length (pendingValues ?b) = N \<and> completes 2 6 ?b"
    using c p by (simp add: N_def)
  have "finalValues (onSettled 2 6 ?b) = Some (map the (pendingValues (onSettled 2 6 ?b)))
      \<and> pendingValues (onSettled 2 6 ?b) = (pendingValues ?b)[2 := Some 6]
      \<and> (modalOpen (onSettled 2 6 ?b)
             \<longleftrightarrow> modalOpen ?b \<or> sum_list (map the (pendingValues (onSettled 2 6 ?b))) = 3)"
    using onSettled_completion [of ?b _ _ 2 6] h2 by blast
  then have "finalValues (onSettled 2 6 ?b) = Some [2, 5, 6] \<and> \<not> modalOpen (onSettled 2 6 ?b)"
    using p m by simp
  then show ?thesis using f p c by blast
qed

subsection \<open>Starting a roll\<close>

lemma rollEach_length: "length (rollEach i handle body rnd ds) = length ds"
  by (induction ds arbitrary: i) simp_all

lemma rollEach_nth:
  "k < length ds \<Longrightarrow>
   rollEach i handle body rnd ds ! k =
     (if handle (i + k) then roll (body (i + k)) (rnd (i + k)) (ds ! k) else (ds ! k, []))"
proof (induction ds arbitrary: i k)
  case Nil
  then show ?case by simp
next
  case (Cons d ds)
  show ?case
  proof (cases k)
    case 0
    then show ?thesis by simp
  next
    case (Suc j)
    then have "j < length ds" using Cons.prems by simp
    from Cons.IH [OF this, of "Suc i"] Suc show ?thesis by simp
  qed
qed

lemma rollAll_app:
  "appState (fst (rollAll handle body rnd s)) =
     (appState s)\<lparr>pendingValues := replicate N None, finalValues := None,
                   modalOpen := False, modalContent := EmptyText\<rparr>"
  by (simp add: rollAll_def Let_def)

lemma rollAll_dice:
  "diceList (fst (rollAll handle body rnd s)) = map fst (rollEach 0 handle body rnd (diceList s))"
  by (simp add: rollAll_def Let_def)

lemma rollAll_calls:
  "snd (rollAll handle body rnd s) = map snd (rollEach 0 handle body rnd (diceList s))"
  by (simp add: rollAll_def Let_def)

text \<open>
  C8. From any scene, a roll in progress included, \<open>rollAll\<close> leaves
  \<open>pendingValues\<close> with \<open>N = 3\<close> null entries and \<open>finalValues\<close> null, and calls
  \<open>roll\<close> on every die whose handle is present: the die's new state and the calls on
  its body are those of \<open>roll\<close>, and the die is rolling when its body is present. A
  die without a handle is left as it was.
\<close>

theorem rollAll_resets:
  "pendingValues (appState (fst (rollAll handle body rnd s))) = replicate N None
   \<and> replicate N None = [None, None, None :: int option]
   \<and> finalValues (appState (fst (rollAll handle body rnd s))) = None
   \<and> length (diceList (fst (rollAll handle body rnd s))) = length (diceList s)
   \<and> length (snd (rollAll handle body rnd s)) = length (diceList s)
   \<and> (\<forall>i<length (diceList s). handle i \<longrightarrow>
         (diceList (fst (rollAll handle body rnd s)) ! i, snd (rollAll handle body rnd s) ! i)
           = roll (body i) (rnd i) (diceList s ! i))
   \<and> (\<forall>i<length (diceList s). handle i \<and> body i \<noteq> None \<longrightarrow>
         rolling (diceList (fst (rollAll handle body rnd s)) ! i))
   \<and> (\<forall>i<length (diceList s). \<not> handle i \<longrightarrow>
         diceList (fst (rollAll handle body rnd s)) ! i = diceList s ! i
         \<and> snd (rollAll handle body rnd s) ! i = [])"
proof (intro conjI allI impI)
  show "pendingValues (appState (fst (rollAll handle body rnd s))) = replicate N None"
    by (simp add: rollAll_app)
  show "replicate N None = [None, None, None :: int option]"
    by (simp add: N_def numeral_3_eq_3)
  show "finalValues (appState (fst (rollAll handle body rnd s))) = None"
    by (simp add: rollAll_app)
  show "length (diceList (fst (rollAll handle body rnd s))) = length (diceList s)"
    by (simp add: rollAll_dice rollEach_length)
  show "length (snd (rollAll handle body rnd s)) = length (diceList s)"
    by (simp add: rollAll_calls rollEach_length)
next
  fix i assume "i < length (diceList s)" and "handle i"
  then show "(diceList (fst (rollAll handle body rnd s)) ! i, snd (rollAll handle body rnd s) ! i)
           = roll (body i) (rnd i) (diceList s ! i)"
    by (simp add: rollAll_dice rollAll_calls rollEach_length rollEach_nth)
next
  fix i assume i: "i < length (diceList s)" and h: "handle i \<and> body i \<noteq> None"
  then obtain b where "body i = Some b" by auto
  then show "rolling (diceList (fst (rollAll handle body rnd s)) ! i)"
    using i h by (simp add: rollAll_dice rollEach_length rollEach_nth roll_def Let_def)
next
  fix i assume "i < length (diceList s)" and "\<not> handle i"
  then show "diceList (fst (rollAll handle body rnd s)) ! i = diceList s ! i"
    and "snd (rollAll handle body rnd s) ! i = []"
    by (simp_all add: rollAll_dice rollAll_calls rollEach_length rollEach_nth)
qed

text \<open>
  Witness: the results of dice 0 and 1 are recorded and die 2 is still rolling when
  \<open>rollAll\<close> is called again; the pending values are all null afterwards and die 0
  is rolling.
\<close>

theorem rollAll_resets_witness:
  "pendingValues (appState
      \<lparr>appState = recordResults [(0, 2), (1, 5)] (appState initialScene),
       diceList = diceList initialScene\<rparr>) = [Some 2, Some 5, None]
   \<and> pendingValues (appState (fst (rollAll (\<lambda>i. True)
        (\<lambda>i. Some \<lparr>linvel = Vector3 (Fin 0) (Fin 0) (Fin 0), angvel = Vector3 (Fin 0) (Fin 0) (Fin 0),
                     rotation = Quaternion (Fin 0) (Fin 0) (Fin 0) (Fin 1)\<rparr>)
        (\<lambda>i. \<lparr>rand_ex = 0, rand_ey = 0, rand_ez = 0, rand_ix = 0, rand_iz = 0,
               rand_iy = 0, rand_tx = 0, rand_ty = 0, rand_tz = 0\<rparr>)
        \<lparr>appState = recordResults [(0, 2), (1, 5)] (appState initialScene),
         diceList = diceList initialScene\<rparr>))) = [None, None, None]
   \<and> rolling (diceList (fst (rollAll (\<lambda>i. True)
        (\<lambda>i. Some \<lparr>linvel = Vector3 (Fin 0) (Fin 0) (Fin 0), angvel = Vector3 (Fin 0) (Fin 0) (Fin 0),
                     rotation = Quaternion (Fin 0) (Fin 0) (Fin 0) (Fin 1)\<rparr>)
        (\<lambda>i. \<lparr>rand_ex = 0, rand_ey = 0, rand_ez = 0, rand_ix = 0, rand_iz = 0,
               rand_iy = 0, rand_tx = 0, rand_ty = 0, rand_tz = 0\<rparr>)
        \<lparr>appState = recordResults [(0, 2), (1, 5)] (appState initialScene),
         diceList = diceList initialScene\<rparr>)) ! 0)"
proof -
  let ?s = "\<lparr>appState = recordResults [(0, 2), (1, 5)] (appState initialScene),
       diceList = diceList initialScene\<rparr>"
  let ?h = "\<lambda>i::nat. True"
  let ?b = "\<lambda>i::nat. Some \<lparr>linvel = Vector3 (Fin 0) (Fin 0) (Fin 0),
                     angvel = Vector3 (Fin 0) (Fin 0) (Fin 0),
                     rotation = Quaternion (Fin 0) (Fin 0) (Fin 0) (Fin 1)\<rparr>"
  let ?r = "\<lambda>i::nat. \<lparr>rand_ex = 0, rand_ey = 0, rand_ez = 0, rand_ix = 0, rand_iz = 0,
               rand_iy = 0, rand_tx = 0, rand_ty = 0, rand_tz = 0\<rparr>"
  have p: "pendingValues (appState ?s) = [Some 2, Some 5, None]"
    by (simp add: initialScene_def N_def onSettled_pending numeral_3_eq_3)
  have len: "0 < length (diceList ?s)" by (simp add: initialScene_def spawns_def)
  have hb: "?h 0 \<and> ?b 0 \<noteq> None" by simp
  note t = rollAll_resets [of ?h ?b ?r ?s]
  have "pendingValues (appState (fst (rollAll ?h ?b ?r ?s))) = [None, None, None]"
    using t by simp
  moreover have "rolling (diceList (fst (rollAll ?h ?b ?r ?s)) ! 0)"
    using t len hb by blast
  ultimately show ?thesis using p by blast
qed

subsection \<open>Completion, at most once per roll\<close>












end
